theory Spec2Isabelle
  imports Complex_Main
begin

section \<open>The canvas editor (src/app/page.tsx)\<close>

text \<open>
  The component \<open>CanvasEditor\<close> keeps its state in React refs and state variables and
  changes it from event handlers. Each handler is embedded as a function from the state
  before the call to the state after it. One handler runs at a time (the browser's event
  loop); interleavings of two pending asynchronous handlers are outside the model.

  JavaScript numbers are read as exact real numbers, so the handlers' arithmetic (the
  display scale, the export factors, the arrow-key steps) is exact here where JavaScript
  rounds to a double. No statement below rests on the result of such a computation except
  at the values of the concrete states (a picture of 1200 by 800 shown at the scale 1/2
  on a canvas of 600 by 400, positions 50, 51, 80 and 120), where the two agree.
  A string made by \<open>JSON.stringify\<close> is identified with the value it serialises, so that
  \<open>JSON.parse\<close> gives that value back; \<open>undefined\<close>, which \<open>Array.pop\<close> and an
  out-of-range index return, is a value of its own that \<open>JSON.parse\<close> rejects.
\<close>

subsection \<open>The graphics library's objects\<close>

type_synonym number = real

text \<open>A fabric object: the four fields \<open>handleExport\<close> rewrites, and the rest of it.\<close>

record fobject =
  scaleX :: "number option"
  scaleY :: "number option"
  obj_left :: "number option"
  obj_top :: "number option"
  obj_rest :: string

text \<open>
  A fabric image: its source URL, its natural size, and the placement
  \<open>img.set({left: 0, top: 0, scaleX, scaleY})\<close> gives it.
\<close>

record image =
  getSrc :: string
  img_width :: number
  img_height :: number
  img_left :: number
  img_top :: number
  img_scaleX :: number
  img_scaleY :: number

text \<open>
  A fabric canvas. The active object, when there is one, is given by its place in the
  list of objects.
\<close>

record canvas =
  getObjects :: "fobject list"
  getActiveObject :: "nat option"
  backgroundImage :: "image option"
  getWidth :: number
  getHeight :: number

text \<open>
  What the \<open>objects\<close> field of a parsed history entry or stored design holds. In a
  snapshot it is the object \<open>canvas.toJSON()\<close> returned: the serialised objects and the
  background image, when the canvas has one. The entry pushed by the mount effect is the
  JSON text of \<open>canvas.toJSON()\<close> itself; read as a snapshot, its \<open>objects\<close> field is the
  array under that object's own \<open>objects\<close> key.
\<close>

datatype canvas_json = CanvasJSON "fobject list" "image option" | ObjectArray "fobject list"

definition toJSON :: "canvas \<Rightarrow> canvas_json" where
  "toJSON c = CanvasJSON (getObjects c) (backgroundImage c)"

text \<open>
  \<open>canvas.clear()\<close> removes the objects, the selection and the background image and keeps
  the size.
\<close>

definition clear :: "canvas \<Rightarrow> canvas" where
  "clear c = c\<lparr>getObjects := [], getActiveObject := None, backgroundImage := None\<rparr>"

text \<open>
  The canvas \<open>canvas.loadFromJSON\<close> leaves: cleared, then holding the serialised objects
  and background image. Given an array it finds no \<open>objects\<close> key and the canvas stays empty.
\<close>

fun loadFromJSON :: "canvas \<Rightarrow> canvas_json \<Rightarrow> canvas" where
  "loadFromJSON c (CanvasJSON os bg) = (clear c)\<lparr>getObjects := os, backgroundImage := bg\<rparr>"
| "loadFromJSON c (ObjectArray os) = clear c"

text \<open>The objects \<open>loadFromJSON\<close> adds to the canvas.\<close>

fun added :: "canvas_json \<Rightarrow> fobject list" where
  "added (CanvasJSON os bg) = os"
| "added (ObjectArray os) = []"

subsection \<open>Snapshots and the editor state\<close>

text \<open>
  \<open>interface ImageCanvas { objects; background }\<close>. A field is \<open>None\<close> when it is
  \<open>null\<close> or absent.
\<close>

record ImageCanvas =
  objects :: "canvas_json option"
  background :: "string option"

text \<open>An element of a history array: \<open>undefined\<close>, or the JSON text of a snapshot.\<close>

datatype entry = Undefined | Str ImageCanvas

datatype error = SyntaxError | ImageLoadError

definition JSON_parse :: "entry \<Rightarrow> error + ImageCanvas" where
  "JSON_parse e = (case e of Undefined \<Rightarrow> Inl SyntaxError | Str s \<Rightarrow> Inr s)"

record editor =
  canvasRef :: "canvas option"
  imgOriginal :: "(number \<times> number) option"
  backgroundRef :: "string option"
  undoStack :: "entry list"
  redoStack :: "entry list"
  isRestoring :: bool
  hasBackground :: bool
  canUndo :: bool
  canRedo :: bool
  localStorage :: "string \<rightharpoonup> ImageCanvas"

definition MAX_HISTORY :: nat where
  "MAX_HISTORY = 20"

text \<open>The refs and state variables as \<open>useRef\<close> and \<open>useState\<close> initialise them.\<close>

definition initial :: "(string \<rightharpoonup> ImageCanvas) \<Rightarrow> editor" where
  "initial store =
     \<lparr>canvasRef = None, imgOriginal = None, backgroundRef = None,
      undoStack = [], redoStack = [], isRestoring = False,
      hasBackground = False, canUndo = False, canRedo = False,
      localStorage = store\<rparr>"

subsection \<open>Array operations\<close>

text \<open>
  \<open>push\<close> appends at the end, \<open>shift\<close> removes the first element, \<open>pop\<close> removes and
  returns the last one (\<open>undefined\<close> on an empty array, which stays empty), and
  \<open>a[a.length - 1]\<close> reads the last one (\<open>undefined\<close> on an empty array).
\<close>

definition push :: "entry list \<Rightarrow> entry \<Rightarrow> entry list" where
  "push a x = a @ [x]"

definition shift :: "entry list \<Rightarrow> entry list" where
  "shift a = (case a of [] \<Rightarrow> [] | x # r \<Rightarrow> r)"

definition pop :: "entry list \<Rightarrow> entry \<times> entry list" where
  "pop a = (if a = [] then (Undefined, []) else (last a, butlast a))"

definition lastEntry :: "entry list \<Rightarrow> entry" where
  "lastEntry a = (if a = [] then Undefined else last a)"

subsection \<open>The handlers\<close>

definition updateStackStates :: "editor \<Rightarrow> editor" where
  "updateStackStates st =
     st\<lparr>canUndo := length (undoStack st) > 1, canRedo := length (redoStack st) > 0\<rparr>"

text \<open>The object \<open>saveHistory\<close> serialises: the canvas as displayed and the background reference.\<close>

definition snapshotOf :: "canvas \<Rightarrow> string option \<Rightarrow> ImageCanvas" where
  "snapshotOf c bg = \<lparr>objects = Some (toJSON c), background = bg\<rparr>"

definition saveHistory :: "editor \<Rightarrow> editor" where
  "saveHistory st =
     (if isRestoring st then st
      else case canvasRef st of
        None \<Rightarrow> st
      | Some c \<Rightarrow>
          let snapshot = snapshotOf c (backgroundRef st);
              st1 = st\<lparr>undoStack := push (undoStack st) (Str snapshot)\<rparr>;
              st2 = (if length (undoStack st1) > MAX_HISTORY
                     then st1\<lparr>undoStack := shift (undoStack st1)\<rparr> else st1);
              st3 = st2\<lparr>localStorage := (localStorage st2)(''canvasDesign'' \<mapsto> snapshot)\<rparr>
          in updateStackStates st3)"

subsection \<open>Library calls that fire the registered handlers\<close>

text \<open>
  The mount effect registers \<open>saveHistory\<close> for \<open>object:modified\<close>, \<open>object:added\<close> and
  \<open>object:removed\<close>. The library fires \<open>object:removed\<close> for each object it removes, once
  the object is out of the list, and \<open>object:added\<close> for each object it adds, once all of
  them are in the list. The canvas argument is the object \<open>canvasRef\<close> holds, so what a
  call does to it is written back to \<open>canvasRef\<close>.
\<close>

fun removeEach :: "canvas \<Rightarrow> fobject list \<Rightarrow> editor \<Rightarrow> editor" where
  "removeEach cv [] st = st"
| "removeEach cv (x # xs) st =
     removeEach cv xs (saveHistory (st\<lparr>canvasRef := Some (cv\<lparr>getObjects := xs\<rparr>)\<rparr>))"

fun fireAdded :: "fobject list \<Rightarrow> editor \<Rightarrow> editor" where
  "fireAdded [] st = st"
| "fireAdded (x # xs) st = fireAdded xs (saveHistory st)"

text \<open>\<open>canvas.clear()\<close> and \<open>canvas.loadFromJSON(json)\<close>, with the handlers they fire.\<close>

definition canvas_clear :: "canvas \<Rightarrow> editor \<Rightarrow> editor" where
  "canvas_clear cv st = (removeEach cv (getObjects cv) st)\<lparr>canvasRef := Some (clear cv)\<rparr>"

definition canvas_loadFromJSON :: "canvas \<Rightarrow> canvas_json \<Rightarrow> editor \<Rightarrow> editor" where
  "canvas_loadFromJSON cv json st =
     (let st1 = canvas_clear cv st;
          st2 = fireAdded (added json)
                  (st1\<lparr>canvasRef := Some ((clear cv)\<lparr>getObjects := added json\<rparr>)\<rparr>)
      in st2\<lparr>canvasRef := Some (loadFromJSON cv json)\<rparr>)"

subsection \<open>Restoring a snapshot\<close>

text \<open>
  \<open>loadSnapshot\<close>. \<open>fromURL\<close> is the library's image loader, a parameter: \<open>None\<close> when the
  promise is rejected, in which case \<open>loadSnapshot\<close> rejects where it stands. The handlers
  that \<open>loadFromJSON\<close> fires reach \<open>saveHistory\<close> while \<open>isRestoring\<close> is set, where it
  returns at once. The timer that clears the flag is the separate step \<open>restoreTimeout\<close>.
\<close>

definition loadSnapshot ::
  "(string \<Rightarrow> image option) \<Rightarrow> canvas \<Rightarrow> ImageCanvas \<Rightarrow> editor \<Rightarrow> error option \<times> editor" where
  "loadSnapshot fromURL cv snapshot st =
     (let st1 = st\<lparr>isRestoring := True\<rparr>;
          c1 = (case objects snapshot of None \<Rightarrow> cv | Some j \<Rightarrow> loadFromJSON cv j);
          st2 = (case objects snapshot of
                   None \<Rightarrow> st1\<lparr>canvasRef := Some c1\<rparr>
                 | Some j \<Rightarrow> canvas_loadFromJSON cv j st1)
      in case background snapshot of
           None \<Rightarrow>
             (None, st2\<lparr>backgroundRef := None, hasBackground := False,
                        canvasRef := Some (c1\<lparr>backgroundImage := None\<rparr>)\<rparr>)
         | Some b \<Rightarrow>
             if b = [] then
               (None, st2\<lparr>backgroundRef := None, hasBackground := False,
                          canvasRef := Some (c1\<lparr>backgroundImage := None\<rparr>)\<rparr>)
             else
               (case fromURL b of
                  None \<Rightarrow> (Some ImageLoadError, st2)
                | Some img \<Rightarrow>
                    let maxWidth = 600;
                        scale = (if img_width img > maxWidth then maxWidth / img_width img else 1);
                        c2 = c1\<lparr>getWidth := img_width img * scale,
                                getHeight := img_height img * scale\<rparr>;
                        img1 = img\<lparr>img_left := 0, img_top := 0,
                                   img_scaleX := scale, img_scaleY := scale\<rparr>;
                        c3 = c2\<lparr>backgroundImage := Some img1\<rparr>
                    in (None, st2\<lparr>canvasRef := Some c3, backgroundRef := Some b,
                                   hasBackground := True\<rparr>)))"

definition restoreTimeout :: "editor \<Rightarrow> editor" where
  "restoreTimeout st = st\<lparr>isRestoring := False\<rparr>"

subsection \<open>Undo, redo and reset\<close>

text \<open>
  \<open>undo\<close> and \<open>redo\<close> return the exception that ended the call, if any, and the state
  the call left behind: what was done before a \<open>throw\<close> stays done.
\<close>

definition undo :: "(string \<Rightarrow> image option) \<Rightarrow> editor \<Rightarrow> error option \<times> editor" where
  "undo fromURL st =
     (case canvasRef st of
        None \<Rightarrow> (None, st)
      | Some cv \<Rightarrow>
          let (current, rest) = pop (undoStack st);
              st1 = st\<lparr>undoStack := rest\<rparr>;
              st2 = st1\<lparr>redoStack := push (redoStack st1) current\<rparr>;
              st3 = (if length (redoStack st2) > MAX_HISTORY
                     then st2\<lparr>redoStack := shift (redoStack st2)\<rparr> else st2)
          in (case JSON_parse (lastEntry (undoStack st3)) of
                Inl e \<Rightarrow> (Some e, st3)
              | Inr prev \<Rightarrow>
                  (let (thrown, st4) = loadSnapshot fromURL cv prev st3
                   in (case thrown of
                         Some e \<Rightarrow> (Some e, st4)
                       | None \<Rightarrow> (None, updateStackStates st4)))))"

definition redo :: "(string \<Rightarrow> image option) \<Rightarrow> editor \<Rightarrow> error option \<times> editor" where
  "redo fromURL st =
     (case canvasRef st of
        None \<Rightarrow> (None, st)
      | Some cv \<Rightarrow>
          if length (redoStack st) = 0 then (None, st)
          else
            let (snapshot, rest) = pop (redoStack st);
                st1 = st\<lparr>redoStack := rest\<rparr>;
                st2 = st1\<lparr>undoStack := push (undoStack st1) snapshot\<rparr>;
                st3 = (if length (undoStack st2) > MAX_HISTORY
                       then st2\<lparr>undoStack := shift (undoStack st2)\<rparr> else st2)
            in (case JSON_parse snapshot of
                  Inl e \<Rightarrow> (Some e, st3)
                | Inr next \<Rightarrow>
                    (let (thrown, st4) = loadSnapshot fromURL cv next st3
                     in (case thrown of
                           Some e \<Rightarrow> (Some e, st4)
                         | None \<Rightarrow> (None, updateStackStates st4)))))"

text \<open>
  \<open>reset\<close>. The handlers that \<open>canvas.clear()\<close> fires run before the assignments that
  follow it.
\<close>

definition reset :: "editor \<Rightarrow> editor" where
  "reset st =
     (case canvasRef st of
        None \<Rightarrow> st
      | Some cv \<Rightarrow>
          let st1 = canvas_clear cv st
          in updateStackStates
               (st1\<lparr>backgroundRef := None, hasBackground := False,
                    undoStack := [], redoStack := [],
                    localStorage := (localStorage st1)(''canvasDesign'' := None)\<rparr>))"

text \<open>The canvas state on screen, as \<open>saveHistory\<close> would serialise it now.\<close>

definition displayed :: "editor \<Rightarrow> ImageCanvas option" where
  "displayed st = map_option (\<lambda>c. snapshotOf c (backgroundRef st)) (canvasRef st)"

subsection \<open>The mount effect\<close>

text \<open>The canvas \<open>new fabric.Canvas\<close> creates (the library's default size).\<close>

definition newCanvas :: canvas where
  "newCanvas =
     \<lparr>getObjects = [], getActiveObject = None, backgroundImage = None,
      getWidth = 300, getHeight = 150\<rparr>"

text \<open>
  \<open>JSON.stringify(canvas.toJSON())\<close> as the mount effect pushes it: read back by
  \<open>loadSnapshot\<close>, its \<open>objects\<close> field is the array of the canvas's objects and it has no
  \<open>background\<close> field.
\<close>

definition initialEntry :: "canvas \<Rightarrow> entry" where
  "initialEntry c = Str \<lparr>objects = Some (ObjectArray (getObjects c)), background = None\<rparr>"

text \<open>
  The mount effect: the canvas is created and, when local storage holds a design, the
  design is restored. \<open>updateStackStates\<close> runs as soon as \<open>load()\<close> has been called, before
  the promises \<open>load\<close> awaits are settled; \<open>isRestoring\<close> is not set, so the handlers that
  \<open>loadFromJSON\<close> fires run \<open>saveHistory\<close>. When the image loader rejects, \<open>load\<close> ends there.
\<close>

definition mount :: "(string \<Rightarrow> image option) \<Rightarrow> editor \<Rightarrow> editor" where
  "mount fromURL st =
     (case canvasRef st of
        Some cv \<Rightarrow> st
      | None \<Rightarrow>
          let st1 = st\<lparr>canvasRef := Some newCanvas\<rparr>
          in (case localStorage st1 ''canvasDesign'' of
                None \<Rightarrow> st1
              | Some saved \<Rightarrow>
                  let st2 = updateStackStates st1;
                      c1 = (case objects saved of
                              None \<Rightarrow> newCanvas
                            | Some j \<Rightarrow> loadFromJSON newCanvas j);
                      st3 = (case objects saved of
                               None \<Rightarrow> st2
                             | Some j \<Rightarrow> canvas_loadFromJSON newCanvas j st2)
                  in (case background saved of
                        None \<Rightarrow> st3\<lparr>undoStack := push (undoStack st3) (initialEntry c1)\<rparr>
                      | Some b \<Rightarrow>
                          if b = [] then
                            st3\<lparr>undoStack := push (undoStack st3) (initialEntry c1)\<rparr>
                          else
                            (case fromURL b of
                               None \<Rightarrow> st3
                             | Some img \<Rightarrow>
                                 let maxWidth = 600;
                                     scale = (if img_width img > maxWidth
                                              then maxWidth / img_width img else 1);
                                     c2 = c1\<lparr>getWidth := img_width img * scale,
                                             getHeight := img_height img * scale\<rparr>;
                                     img1 = img\<lparr>img_left := 0, img_top := 0,
                                                img_scaleX := scale, img_scaleY := scale\<rparr>;
                                     c3 = c2\<lparr>backgroundImage := Some img1\<rparr>;
                                     st4 = st3\<lparr>canvasRef := Some c3, backgroundRef := Some b,
                                               hasBackground := True\<rparr>
                                 in st4\<lparr>undoStack := push (undoStack st4) (initialEntry c3)\<rparr>))))"

subsection \<open>The arrow keys\<close>

text \<open>\<open>v || d\<close> on numbers: \<open>d\<close> when \<open>v\<close> is \<open>null\<close>, \<open>undefined\<close> or zero.\<close>

definition falsyOr :: "number option \<Rightarrow> number \<Rightarrow> number" where
  "falsyOr v d = (case v of None \<Rightarrow> d | Some x \<Rightarrow> if x = 0 then d else x)"

text \<open>
  \<open>handleKey\<close>, from the event's \<open>shiftKey\<close> and \<open>key\<close>. It moves the active object and
  redraws; it fires no event and does not call \<open>saveHistory\<close>.
\<close>

definition handleKey :: "bool \<Rightarrow> string \<Rightarrow> editor \<Rightarrow> editor" where
  "handleKey shiftKey key st =
     (case canvasRef st of
        None \<Rightarrow> st
      | Some cv \<Rightarrow>
          (case getActiveObject cv of
             None \<Rightarrow> st
           | Some i \<Rightarrow>
               if length (getObjects cv) \<le> i then st
               else
                 let obj = getObjects cv ! i;
                     step = (if shiftKey then 10 else 1);
                     moved =
                       (if key = ''ArrowUp''
                        then Some (obj\<lparr>obj_top := Some (falsyOr (obj_top obj) 0 - step)\<rparr>)
                        else if key = ''ArrowDown''
                        then Some (obj\<lparr>obj_top := Some (falsyOr (obj_top obj) 0 + step)\<rparr>)
                        else if key = ''ArrowLeft''
                        then Some (obj\<lparr>obj_left := Some (falsyOr (obj_left obj) 0 - step)\<rparr>)
                        else if key = ''ArrowRight''
                        then Some (obj\<lparr>obj_left := Some (falsyOr (obj_left obj) 0 + step)\<rparr>)
                        else None)
                 in (case moved of
                       None \<Rightarrow> st
                     | Some obj1 \<Rightarrow>
                         st\<lparr>canvasRef := Some (cv\<lparr>getObjects := (getObjects cv)[i := obj1]\<rparr>)\<rparr>)))"

subsection \<open>Upload and export\<close>

text \<open>
  \<open>handleUpload\<close>, from the file reader's result \<open>src\<close> (\<open>None\<close> when no file was chosen or
  the reader gave nothing). A rejected image load is caught and logged, with no change of
  state.
\<close>

definition handleUpload :: "(string \<Rightarrow> image option) \<Rightarrow> string option \<Rightarrow> editor \<Rightarrow> editor" where
  "handleUpload fromURL src st =
     (case src of
        None \<Rightarrow> st
      | Some s \<Rightarrow>
          if s = [] then st
          else
            (case fromURL s of
               None \<Rightarrow> st
             | Some img \<Rightarrow>
                 (case canvasRef st of
                    None \<Rightarrow> st
                  | Some cv \<Rightarrow>
                      let st1 = st\<lparr>imgOriginal := Some (img_width img, img_height img),
                                    backgroundRef := Some s, hasBackground := True\<rparr>;
                          st2 = canvas_clear cv st1;
                          c1 = clear cv;
                          maxWidth = 600;
                          scale = (if img_width img > maxWidth then maxWidth / img_width img else 1);
                          c2 = c1\<lparr>getWidth := img_width img * scale,
                                  getHeight := img_height img * scale\<rparr>;
                          img1 = img\<lparr>img_left := 0, img_top := 0,
                                     img_scaleX := scale, img_scaleY := scale\<rparr>;
                          c3 = c2\<lparr>backgroundImage := Some img1\<rparr>;
                          snapshot = snapshotOf c3 (backgroundRef st2)
                      in st2\<lparr>canvasRef := Some c3,
                             localStorage := (localStorage st2)(''canvasDesign'' \<mapsto> snapshot)\<rparr>)))"

text \<open>\<open>v ?? d\<close>: the value \<open>v\<close>, or \<open>d\<close> when \<open>v\<close> is \<open>null\<close> or \<open>undefined\<close>.\<close>

definition nullish :: "'a option \<Rightarrow> 'a \<Rightarrow> 'a" where
  "nullish v d = (case v of None \<Rightarrow> d | Some x \<Rightarrow> x)"

text \<open>The body of the loop of \<open>handleExport\<close>, on the clone of an object.\<close>

definition exportObject :: "number \<Rightarrow> number \<Rightarrow> fobject \<Rightarrow> fobject" where
  "exportObject sx sy cloned =
     cloned\<lparr>scaleX := Some (nullish (scaleX cloned) 1 * sx),
            scaleY := Some (nullish (scaleY cloned) 1 * sy),
            obj_left := Some (nullish (obj_left cloned) 0 * sx),
            obj_top := Some (nullish (obj_top cloned) 0 * sy)\<rparr>"

text \<open>
  \<open>handleExport\<close> gives the canvas it renders to the PNG: \<open>None\<close> when it returns at its
  guard, \<open>Some (Inl e)\<close> when loading the background again is rejected. \<open>clone\<close> is the
  library's \<open>obj.clone()\<close>, a parameter.
\<close>

definition handleExport ::
  "(string \<Rightarrow> image option) \<Rightarrow> (fobject \<Rightarrow> fobject) \<Rightarrow> editor \<Rightarrow> (error + canvas) option" where
  "handleExport fromURL clone st =
     (case canvasRef st of
        None \<Rightarrow> None
      | Some cv \<Rightarrow>
          (case imgOriginal st of
             None \<Rightarrow> None
           | Some (original_width, original_height) \<Rightarrow>
               let sx = original_width / getWidth cv;
                   sy = original_height / getHeight cv;
                   exportFabric =
                     \<lparr>getObjects = map (\<lambda>obj. exportObject sx sy (clone obj)) (getObjects cv),
                      getActiveObject = None, backgroundImage = None,
                      getWidth = original_width, getHeight = original_height\<rparr>
               in (case backgroundImage cv of
                     None \<Rightarrow> Some (Inr exportFabric)
                   | Some bg \<Rightarrow>
                       (case fromURL (getSrc bg) of
                          None \<Rightarrow> Some (Inl ImageLoadError)
                        | Some bgImg \<Rightarrow>
                            Some (Inr (exportFabric\<lparr>backgroundImage := Some bgImg\<rparr>))))))"

subsection \<open>Sequences of operations\<close>

text \<open>
  What the user does on the canvas itself (adding, dragging, typing) changes the objects
  inside the library, which then fires the event that runs \<open>saveHistory\<close>; selecting an
  object makes it the active one.
\<close>

definition libraryEdit :: "fobject list \<Rightarrow> editor \<Rightarrow> editor" where
  "libraryEdit os st = st\<lparr>canvasRef := map_option (\<lambda>c. c\<lparr>getObjects := os\<rparr>) (canvasRef st)\<rparr>"

definition setActiveObject :: "nat \<Rightarrow> editor \<Rightarrow> editor" where
  "setActiveObject i st =
     st\<lparr>canvasRef := map_option (\<lambda>c. c\<lparr>getActiveObject := Some i\<rparr>) (canvasRef st)\<rparr>"

datatype operation = SaveHistory | Undo | Redo | RestoreTimeout | LibraryEdit "fobject list"

text \<open>An exception leaves the handler; the component goes on from the state it left.\<close>

fun perform :: "(string \<Rightarrow> image option) \<Rightarrow> operation \<Rightarrow> editor \<Rightarrow> editor" where
  "perform fromURL SaveHistory st = saveHistory st"
| "perform fromURL Undo st = snd (undo fromURL st)"
| "perform fromURL Redo st = snd (redo fromURL st)"
| "perform fromURL RestoreTimeout st = restoreTimeout st"
| "perform fromURL (LibraryEdit os) st = libraryEdit os st"

fun run :: "(string \<Rightarrow> image option) \<Rightarrow> operation list \<Rightarrow> editor \<Rightarrow> editor" where
  "run fromURL [] st = st"
| "run fromURL (x # xs) st = run fromURL xs (perform fromURL x st)"

text \<open>A history array after \<open>push\<close> and the check against \<open>MAX_HISTORY\<close> that follows each.\<close>

definition capped :: "entry list \<Rightarrow> entry list" where
  "capped a = (if length a > MAX_HISTORY then shift a else a)"

definition bounded :: "editor \<Rightarrow> bool" where
  "bounded st = (length (undoStack st) \<le> MAX_HISTORY \<and> length (redoStack st) \<le> MAX_HISTORY)"

subsection \<open>Concrete editor states\<close>

definition textbox :: "number \<Rightarrow> number \<Rightarrow> fobject" where
  "textbox x y =
     \<lparr>scaleX = Some 1, scaleY = Some 1, obj_left = Some x, obj_top = Some y, obj_rest = ''Edit me''\<rparr>"

text \<open>An image loader that knows one picture, 1200 by 800 pixels.\<close>

definition pngLoader :: "string \<Rightarrow> image option" where
  "pngLoader u =
     (if u = ''data:image/png;base64,iVBOR''
      then Some \<lparr>getSrc = u, img_width = 1200, img_height = 800, img_left = 0, img_top = 0,
                 img_scaleX = 1, img_scaleY = 1\<rparr>
      else None)"

text \<open>The picture as the editor places it behind the objects, at half its size.\<close>

definition placedPicture :: image where
  "placedPicture =
     \<lparr>getSrc = ''data:image/png;base64,iVBOR'', img_width = 1200, img_height = 800,
      img_left = 0, img_top = 0, img_scaleX = 1 / 2, img_scaleY = 1 / 2\<rparr>"

text \<open>The page is opened with nothing stored, and the picture is uploaded.\<close>

definition uploaded :: editor where
  "uploaded =
     handleUpload pngLoader (Some ''data:image/png;base64,iVBOR'')
       (mount pngLoader (initial Map.empty))"

text \<open>Two recorded edits: a text box is added, then dragged.\<close>

definition twoEdits :: editor where
  "twoEdits =
     run pngLoader
       [LibraryEdit [textbox 50 50], SaveHistory, LibraryEdit [textbox 80 50], SaveHistory]
       uploaded"

definition firstEdit :: ImageCanvas where
  "firstEdit =
     \<lparr>objects = Some (CanvasJSON [textbox 50 50] (Some placedPicture)),
      background = Some ''data:image/png;base64,iVBOR''\<rparr>"

definition secondEdit :: ImageCanvas where
  "secondEdit =
     \<lparr>objects = Some (CanvasJSON [textbox 80 50] (Some placedPicture)),
      background = Some ''data:image/png;base64,iVBOR''\<rparr>"

text \<open>After the two edits: one undo; then the restore timer.\<close>

definition undone :: editor where
  "undone = snd (undo pngLoader twoEdits)"

definition redoable :: editor where
  "redoable = restoreTimeout undone"

text \<open>After the two edits: the text box is selected and the down arrow is pressed once.\<close>

definition nudged :: editor where
  "nudged = handleKey False ''ArrowDown'' (setActiveObject 0 twoEdits)"

text \<open>
  After the two edits the page is loaded again, with the design that \<open>saveHistory\<close> left
  in local storage; then the text box is dragged, which is recorded.
\<close>

definition reloaded :: editor where
  "reloaded = mount pngLoader (initial (localStorage twoEdits))"

definition reloadedEdited :: editor where
  "reloadedEdited = saveHistory (libraryEdit [textbox 120 50] reloaded)"

text \<open>The page is loaded with a stored design of twenty text boxes.\<close>

definition crowded :: ImageCanvas where
  "crowded =
     \<lparr>objects = Some (CanvasJSON (replicate 20 (textbox 50 50)) (Some placedPicture)),
      background = Some ''data:image/png;base64,iVBOR''\<rparr>"

definition reloadedCrowded :: editor where
  "reloadedCrowded = mount pngLoader (initial [''canvasDesign'' \<mapsto> crowded])"

section \<open>The wallet panel (src/components/wallet/index.js)\<close>

text \<open>
  The component \<open>WalletInterface\<close>. The injected provider and the client library are a
  record of functions, held in the state variable \<open>web3\<close>; a call that throws or a promise
  that is rejected gives \<open>Inl\<close> with the error's message. \<open>rpcLog\<close> is not a variable of
  the component: it lists, in order, the requests the handlers send to the provider.
\<close>

record SendForm =
  to :: string
  amount :: string
  gasPrice :: string

record Message =
  msg_type :: string
  msg_text :: string

record HistoryEntry =
  tx_hash :: string
  tx_to :: string
  tx_amount :: string
  tx_type :: string
  tx_timestamp :: string

record GasCall =
  call_from :: string
  call_to :: string
  call_value :: string

record Transaction =
  req_from :: string
  req_to :: string
  req_value :: string
  req_gas :: nat
  req_gasPrice :: string

record Receipt =
  transactionHash :: string

datatype rpc = EstimateGas GasCall | SendTransaction Transaction | GetBalance string

record Web3 =
  isAddress :: "string \<Rightarrow> bool"
  toWei :: "string \<Rightarrow> string \<Rightarrow> string + string"
  fromWei :: "string \<Rightarrow> string \<Rightarrow> string"
  eth_estimateGas :: "GasCall \<Rightarrow> string + nat"
  eth_sendTransaction :: "Transaction \<Rightarrow> string + Receipt"
  eth_getBalance :: "string \<Rightarrow> string + string"

text \<open>
  What the handlers take from the JavaScript runtime: \<open>parseFloat(x).toFixed(4)\<close>,
  \<open>(parseFloat(x) * price).toFixed(2)\<close> and \<open>new Date().toISOString()\<close>.
\<close>

record Runtime =
  toFixed4 :: "string \<Rightarrow> string"
  usdValue :: "string \<Rightarrow> number \<Rightarrow> string"
  toISOString :: string

record wallet =
  web3 :: "Web3 option"
  account :: "string option"
  balance :: string
  balanceUSD :: string
  isConnected :: bool
  loading :: bool
  message :: Message
  sendForm :: SendForm
  transactions :: "HistoryEntry list"
  ethPrice :: number
  rpcLog :: "rpc list"

text \<open>\<open>showMessage\<close>; the timer that blanks the message five seconds later is left out.\<close>

definition showMessage :: "string \<Rightarrow> string \<Rightarrow> wallet \<Rightarrow> wallet" where
  "showMessage ty txt st = st\<lparr>message := \<lparr>msg_type = ty, msg_text = txt\<rparr>\<rparr>"

definition updateBalance :: "Runtime \<Rightarrow> wallet \<Rightarrow> wallet" where
  "updateBalance js st =
     (case web3 st of
        None \<Rightarrow> st
      | Some w \<Rightarrow>
          (case account st of
             None \<Rightarrow> st
           | Some acc \<Rightarrow>
               if acc = [] then st
               else
                 let st1 = st\<lparr>rpcLog := rpcLog st @ [GetBalance acc]\<rparr>
                 in (case eth_getBalance w acc of
                       Inl e \<Rightarrow> st1
                     | Inr balanceWei \<Rightarrow>
                         let balanceEth = fromWei w balanceWei ''ether'';
                             st2 = st1\<lparr>balance := toFixed4 js balanceEth\<rparr>
                         in if ethPrice st > 0
                            then st2\<lparr>balanceUSD := usdValue js balanceEth (ethPrice st)\<rparr>
                            else st2)))"

text \<open>The \<open>catch\<close> and \<open>finally\<close> blocks of \<open>sendTransaction\<close>.\<close>

definition sendFailed :: "string \<Rightarrow> wallet \<Rightarrow> wallet" where
  "sendFailed e st = (showMessage ''error'' (''Transaction failed: '' @ e) st)\<lparr>loading := False\<rparr>"

definition sendTransaction :: "Runtime \<Rightarrow> wallet \<Rightarrow> wallet" where
  "sendTransaction js st =
     (case web3 st of
        None \<Rightarrow> showMessage ''error'' ''Please connect your wallet first'' st
      | Some w \<Rightarrow>
          (case account st of
             None \<Rightarrow> showMessage ''error'' ''Please connect your wallet first'' st
           | Some acc \<Rightarrow>
               if acc = [] then
                 showMessage ''error'' ''Please connect your wallet first'' st
               else if to (sendForm st) = [] \<or> amount (sendForm st) = [] then
                 showMessage ''error'' ''Please fill in all fields'' st
               else if \<not> isAddress w (to (sendForm st)) then
                 showMessage ''error'' ''Invalid recipient address'' st
               else
                 let st1 = st\<lparr>loading := True\<rparr>
                 in (case toWei w (amount (sendForm st)) ''ether'' of
                       Inl e \<Rightarrow> sendFailed e st1
                     | Inr amountWei \<Rightarrow>
                         (case toWei w (gasPrice (sendForm st)) ''gwei'' of
                            Inl e \<Rightarrow> sendFailed e st1
                          | Inr gasPriceWei \<Rightarrow>
                              let call = \<lparr>call_from = acc, call_to = to (sendForm st),
                                          call_value = amountWei\<rparr>;
                                  st2 = st1\<lparr>rpcLog := rpcLog st1 @ [EstimateGas call]\<rparr>
                              in (case eth_estimateGas w call of
                                    Inl e \<Rightarrow> sendFailed e st2
                                  | Inr gasEstimate \<Rightarrow>
                                      let transaction =
                                            \<lparr>req_from = acc, req_to = to (sendForm st),
                                             req_value = amountWei, req_gas = gasEstimate,
                                             req_gasPrice = gasPriceWei\<rparr>;
                                          st3 = st2\<lparr>rpcLog :=
                                                   rpcLog st2 @ [SendTransaction transaction]\<rparr>
                                      in (case eth_sendTransaction w transaction of
                                            Inl e \<Rightarrow> sendFailed e st3
                                          | Inr receipt \<Rightarrow>
                                              let newTransaction =
                                                    \<lparr>tx_hash = transactionHash receipt,
                                                     tx_to = to (sendForm st),
                                                     tx_amount = amount (sendForm st),
                                                     tx_type = ''sent'',
                                                     tx_timestamp = toISOString js\<rparr>;
                                                  st4 = st3\<lparr>transactions :=
                                                           newTransaction # transactions st3\<rparr>;
                                                  st5 = showMessage ''success''
                                                          (''Transaction sent successfully! Hash: '' @
                                                             transactionHash receipt) st4;
                                                  st6 = st5\<lparr>sendForm := \<lparr>to = [], amount = [],
                                                                            gasPrice = ''20''\<rparr>\<rparr>
                                              in (updateBalance js st6)\<lparr>loading := False\<rparr>))))))"

subsection \<open>A concrete provider\<close>

text \<open>
  A provider that takes any string of 42 characters for an address, estimates 21000 gas,
  and accepts a transfer of one ether but not of two.
\<close>

definition bob :: string where
  "bob = ''0x2222222222222222222222222222222222222222''"

definition alice :: string where
  "alice = ''0x1111111111111111111111111111111111111111''"

definition provider :: Web3 where
  "provider =
     \<lparr>isAddress = (\<lambda>a. length a = 42),
      toWei = (\<lambda>v u. if v = [] then Inl ''invalid number''
                      else Inr (v @ (if u = ''ether'' then ''e18'' else ''e9''))),
      fromWei = (\<lambda>v u. v),
      eth_estimateGas = (\<lambda>c. Inr 21000),
      eth_sendTransaction = (\<lambda>t. if req_value t = ''1e18'' then Inr \<lparr>transactionHash = ''0xabc''\<rparr>
                                   else Inl ''insufficient funds''),
      eth_getBalance = (\<lambda>a. Inr ''5'')\<rparr>"

definition runtime :: Runtime where
  "runtime =
     \<lparr>toFixed4 = (\<lambda>x. x @ ''.0000''), usdValue = (\<lambda>x p. ''0.00''),
      toISOString = ''2024-01-01T00:00:00.000Z''\<rparr>"

definition panel :: "string \<Rightarrow> string \<Rightarrow> wallet" where
  "panel recipient value =
     \<lparr>web3 = Some provider, account = Some alice, balance = ''0'', balanceUSD = ''0'',
      isConnected = True, loading = False, message = \<lparr>msg_type = [], msg_text = []\<rparr>,
      sendForm = \<lparr>to = recipient, amount = value, gasPrice = ''20''\<rparr>,
      transactions = [], ethPrice = 0, rpcLog = []\<rparr>"

section \<open>The history arrays\<close>

subsection \<open>What each handler does to the arrays\<close>

lemma saveHistory_restoring: "isRestoring st \<Longrightarrow> saveHistory st = st"
  by (simp add: saveHistory_def)

lemma fireAdded_restoring: "isRestoring st \<Longrightarrow> fireAdded os st = st"
  by (induction os arbitrary: st) (simp_all add: saveHistory_restoring)

lemma removeEach_restoring:
  "isRestoring st \<Longrightarrow> (removeEach cv os st)\<lparr>canvasRef := c\<rparr> = st\<lparr>canvasRef := c\<rparr>"
  by (induction os arbitrary: st) (simp_all add: saveHistory_restoring)

lemma canvas_clear_restoring:
  "isRestoring st \<Longrightarrow> canvas_clear cv st = st\<lparr>canvasRef := Some (clear cv)\<rparr>"
  by (simp add: canvas_clear_def removeEach_restoring)

lemma canvas_loadFromJSON_restoring:
  "isRestoring st \<Longrightarrow> canvas_loadFromJSON cv j st = st\<lparr>canvasRef := Some (loadFromJSON cv j)\<rparr>"
  by (simp add: canvas_loadFromJSON_def Let_def canvas_clear_restoring fireAdded_restoring)

text \<open>\<open>loadSnapshot\<close> with the handlers it fires taken out: under \<open>isRestoring\<close> they do nothing.\<close>

lemma loadSnapshot_alt:
  "loadSnapshot fromURL cv snapshot st =
     (let st1 = st\<lparr>isRestoring := True\<rparr>;
          c1 = (case objects snapshot of None \<Rightarrow> cv | Some j \<Rightarrow> loadFromJSON cv j);
          st2 = st1\<lparr>canvasRef := Some c1\<rparr>
      in case background snapshot of
           None \<Rightarrow>
             (None, st2\<lparr>backgroundRef := None, hasBackground := False,
                        canvasRef := Some (c1\<lparr>backgroundImage := None\<rparr>)\<rparr>)
         | Some b \<Rightarrow>
             if b = [] then
               (None, st2\<lparr>backgroundRef := None, hasBackground := False,
                          canvasRef := Some (c1\<lparr>backgroundImage := None\<rparr>)\<rparr>)
             else
               (case fromURL b of
                  None \<Rightarrow> (Some ImageLoadError, st2)
                | Some img \<Rightarrow>
                    let maxWidth = 600;
                        scale = (if img_width img > maxWidth then maxWidth / img_width img else 1);
                        c2 = c1\<lparr>getWidth := img_width img * scale,
                                getHeight := img_height img * scale\<rparr>;
                        img1 = img\<lparr>img_left := 0, img_top := 0,
                                   img_scaleX := scale, img_scaleY := scale\<rparr>;
                        c3 = c2\<lparr>backgroundImage := Some img1\<rparr>
                    in (None, st2\<lparr>canvasRef := Some c3, backgroundRef := Some b,
                                   hasBackground := True\<rparr>)))"
  by (cases "objects snapshot")
    (simp_all add: loadSnapshot_def Let_def canvas_loadFromJSON_restoring split: option.splits)

lemma length_capped_push: "length a \<le> MAX_HISTORY \<Longrightarrow> length (capped (push a x)) \<le> MAX_HISTORY"
  by (cases a) (auto simp: capped_def push_def shift_def MAX_HISTORY_def)

lemma capped_push_full: "length a = MAX_HISTORY \<Longrightarrow> capped (push a x) = tl a @ [x]"
  by (cases a) (auto simp: capped_def push_def shift_def MAX_HISTORY_def)

lemma capped_push_room: "length a < MAX_HISTORY \<Longrightarrow> capped (push a x) = a @ [x]"
  by (simp add: capped_def push_def)

lemma last_capped_push: "lastEntry (capped (push a x)) = x"
  by (cases a) (auto simp: capped_def push_def shift_def lastEntry_def MAX_HISTORY_def)

lemma fst_pop: "fst (pop a) = lastEntry a"
  by (simp add: pop_def lastEntry_def)

lemma fst_pop_last: "a \<noteq> [] \<Longrightarrow> fst (pop a) = last a"
  by (simp add: pop_def)

lemma snd_pop: "snd (pop a) = butlast a"
  by (simp add: pop_def)

lemma loadSnapshot_undoStack: "undoStack (snd (loadSnapshot f cv s st)) = undoStack st"
  by (simp add: loadSnapshot_alt Let_def split: option.splits)

lemma loadSnapshot_redoStack: "redoStack (snd (loadSnapshot f cv s st)) = redoStack st"
  by (simp add: loadSnapshot_alt Let_def split: option.splits)

lemma loadSnapshot_localStorage: "localStorage (snd (loadSnapshot f cv s st)) = localStorage st"
  by (simp add: loadSnapshot_alt Let_def split: option.splits)

lemma loadSnapshot_stacksD:
  "loadSnapshot f cv s st = (t, st4) \<Longrightarrow>
     undoStack st4 = undoStack st \<and> redoStack st4 = redoStack st \<and> localStorage st4 = localStorage st"
  using loadSnapshot_undoStack[of f cv s st] loadSnapshot_redoStack[of f cv s st]
    loadSnapshot_localStorage[of f cv s st] by simp

lemma undo_stacks:
  assumes "canvasRef st = Some cv"
  shows "undoStack (snd (undo f st)) = butlast (undoStack st)"
    and "redoStack (snd (undo f st)) = capped (push (redoStack st) (lastEntry (undoStack st)))"
    and "localStorage (snd (undo f st)) = localStorage st"
  using assms
  by (auto simp: undo_def Let_def updateStackStates_def capped_def fst_pop[symmetric] snd_pop[symmetric]
      split: prod.splits sum.splits option.splits dest!: loadSnapshot_stacksD)

lemma redo_stacks:
  assumes "canvasRef st = Some cv" "redoStack st \<noteq> []"
  shows "redoStack (snd (redo f st)) = butlast (redoStack st)"
    and "undoStack (snd (redo f st)) = capped (push (undoStack st) (last (redoStack st)))"
    and "localStorage (snd (redo f st)) = localStorage st"
  using assms
  by (auto simp: redo_def Let_def updateStackStates_def capped_def pop_def
      split: prod.splits sum.splits option.splits dest!: loadSnapshot_stacksD)

lemma saveHistory_undoStack:
  "canvasRef st = Some cv \<Longrightarrow> \<not> isRestoring st \<Longrightarrow>
   undoStack (saveHistory st) = capped (push (undoStack st) (Str (snapshotOf cv (backgroundRef st))))"
  by (simp add: saveHistory_def Let_def updateStackStates_def capped_def)

lemma saveHistory_redoStack: "redoStack (saveHistory st) = redoStack st"
  by (simp add: saveHistory_def Let_def updateStackStates_def split: option.splits)

lemma saveHistory_None: "canvasRef st = None \<Longrightarrow> saveHistory st = st"
  by (simp add: saveHistory_def)

lemma undo_None: "canvasRef st = None \<Longrightarrow> undo f st = (None, st)"
  by (simp add: undo_def)

lemma redo_None: "canvasRef st = None \<Longrightarrow> redo f st = (None, st)"
  by (simp add: redo_def)

lemma redo_empty: "redoStack st = [] \<Longrightarrow> redo f st = (None, st)"
  by (simp add: redo_def split: option.splits)

lemma saveHistory_bounded: "bounded st \<Longrightarrow> bounded (saveHistory st)"
proof (cases "isRestoring st \<or> canvasRef st = None")
  case True
  assume "bounded st"
  then show ?thesis using True by (auto simp: saveHistory_restoring saveHistory_None)
next
  case False
  assume b: "bounded st"
  from False obtain cv where c: "canvasRef st = Some cv" and r: "\<not> isRestoring st" by auto
  show ?thesis using b saveHistory_undoStack[OF c r] length_capped_push[of "undoStack st"]
    by (simp add: bounded_def saveHistory_redoStack)
qed

lemma undo_bounded: "bounded st \<Longrightarrow> bounded (snd (undo f st))"
proof (cases "canvasRef st")
  case None
  assume "bounded st"
  then show ?thesis using None by (simp add: undo_None)
next
  case (Some cv)
  assume b: "bounded st"
  then show ?thesis using undo_stacks(1,2)[OF Some, of f]
      length_capped_push[of "redoStack st" "lastEntry (undoStack st)"]
    by (auto simp: bounded_def)
qed

lemma redo_bounded: "bounded st \<Longrightarrow> bounded (snd (redo f st))"
proof (cases "canvasRef st = None \<or> redoStack st = []")
  case True
  assume "bounded st"
  then show ?thesis using True by (auto simp: redo_None redo_empty)
next
  case False
  assume b: "bounded st"
  from False obtain cv where c: "canvasRef st = Some cv" and r: "redoStack st \<noteq> []" by auto
  show ?thesis using b redo_stacks(1,2)[OF c r, of f]
      length_capped_push[of "undoStack st" "last (redoStack st)"]
    by (auto simp: bounded_def)
qed

lemma perform_bounded: "bounded st \<Longrightarrow> bounded (perform f x st)"
  by (cases x)
    (simp_all add: saveHistory_bounded undo_bounded redo_bounded,
     simp_all add: bounded_def restoreTimeout_def libraryEdit_def)

lemma run_bounded: "bounded st \<Longrightarrow> bounded (run f ops st)"
  by (induction ops arbitrary: st) (simp_all add: perform_bounded)

lemma loadSnapshot_canvasRef: "canvasRef (snd (loadSnapshot f cv s st)) \<noteq> None"
  by (simp add: loadSnapshot_alt Let_def split: option.splits)

lemma displayed_updateStackStates: "displayed (updateStackStates st) = displayed st"
  by (simp add: displayed_def updateStackStates_def)

lemma undo_unfold:
  assumes "canvasRef st = Some cv" and "lastEntry (butlast (undoStack st)) = Str a"
  shows "undo f st =
      (let (thrown, st4) =
             loadSnapshot f cv a
               (st\<lparr>undoStack := butlast (undoStack st),
                   redoStack := capped (push (redoStack st) (lastEntry (undoStack st)))\<rparr>)
       in (case thrown of Some e \<Rightarrow> (Some e, st4) | None \<Rightarrow> (None, updateStackStates st4)))"
proof -
  have "undoStack st \<noteq> []"
    using assms(2) by (auto simp: lastEntry_def)
  then have "pop (undoStack st) = (lastEntry (undoStack st), butlast (undoStack st))"
    by (simp add: pop_def lastEntry_def)
  then show ?thesis
    using assms by (simp add: undo_def Let_def capped_def JSON_parse_def)
qed

lemma loadSnapshot_error: "fst (loadSnapshot f cv s st) \<noteq> Some SyntaxError"
  by (simp add: loadSnapshot_alt Let_def split: option.splits)

lemma undo_parsed:
  assumes "canvasRef st = Some cv" and "lastEntry (butlast (undoStack st)) = Str a"
  shows "fst (undo f st) \<noteq> Some SyntaxError"
proof -
  obtain t st4 where l: "loadSnapshot f cv a
               (st\<lparr>undoStack := butlast (undoStack st),
                   redoStack := capped (push (redoStack st) (lastEntry (undoStack st)))\<rparr>) = (t, st4)"
    by fastforce
  then have "t \<noteq> Some SyntaxError"
    using loadSnapshot_error[of f cv a] by (metis fst_conv)
  then show ?thesis
    using undo_unfold[OF assms, of f] l by (cases t) simp_all
qed

lemma lastEntry_last: "a \<noteq> [] \<Longrightarrow> lastEntry a = last a"
  by (simp add: lastEntry_def)

lemma undo_short:
  assumes "canvasRef st = Some cv" and "length (undoStack st) \<le> 1"
  shows "undo f st =
    (Some SyntaxError,
     st\<lparr>undoStack := [], redoStack := capped (push (redoStack st) (lastEntry (undoStack st)))\<rparr>)"
proof -
  have b: "butlast (undoStack st) = []"
    using assms(2) by (cases "undoStack st") auto
  have "pop (undoStack st) = (lastEntry (undoStack st), [])"
    using b by (simp add: pop_def lastEntry_def)
  then show ?thesis
    using assms(1) by (simp add: undo_def Let_def capped_def JSON_parse_def lastEntry_def)
qed

lemma saveHistory_recorded:
  assumes "canvasRef st = Some cv" and "\<not> isRestoring st"
  shows "localStorage (saveHistory st) ''canvasDesign'' = Some (snapshotOf cv (backgroundRef st))"
    and "displayed (saveHistory st) = Some (snapshotOf cv (backgroundRef st))"
    and "canRedo (saveHistory st) = (redoStack st \<noteq> [])"
  using assms by (simp_all add: saveHistory_def Let_def updateStackStates_def displayed_def)

lemma redo_localStorage: "localStorage (snd (redo f st)) = localStorage st"
proof (cases "canvasRef st = None \<or> redoStack st = []")
  case True
  then show ?thesis by (auto simp: redo_None redo_empty)
next
  case False
  then show ?thesis using redo_stacks(3)[of st _ f] by auto
qed

lemma undo_localStorage: "localStorage (snd (undo f st)) = localStorage st"
proof (cases "canvasRef st")
  case None
  then show ?thesis by (simp add: undo_None)
next
  case (Some cv)
  then show ?thesis by (rule undo_stacks(3))
qed

lemma saveHistory_keeps:
  "canvasRef (saveHistory st) = canvasRef st" "isRestoring (saveHistory st) = isRestoring st"
  by (simp_all add: saveHistory_def Let_def updateStackStates_def split: option.splits)

lemma fireAdded_length:
  "canvasRef st \<noteq> None \<Longrightarrow> \<not> isRestoring st \<Longrightarrow>
   length (undoStack st) + length os \<le> MAX_HISTORY \<Longrightarrow>
   length (undoStack (fireAdded os st)) = length (undoStack st) + length os"
proof (induction os arbitrary: st)
  case Nil
  then show ?case by simp
next
  case (Cons x xs)
  from Cons.prems obtain cv where c: "canvasRef st = Some cv"
    by auto
  have l: "length (undoStack (saveHistory st)) = Suc (length (undoStack st))"
    using saveHistory_undoStack[OF c Cons.prems(2)] Cons.prems(3)
    by (simp add: capped_push_room)
  show ?case
    using Cons.IH[of "saveHistory st"] Cons.prems l by (simp add: saveHistory_keeps)
qed

lemma fireAdded_keeps:
  "canvasRef (fireAdded os st) = canvasRef st" "isRestoring (fireAdded os st) = isRestoring st"
  by (induction os arbitrary: st) (simp_all add: saveHistory_keeps)

lemma saveHistory_over_bound:
  "canvasRef st \<noteq> None \<Longrightarrow> \<not> isRestoring st \<Longrightarrow> MAX_HISTORY \<le> length (undoStack st) \<Longrightarrow>
   length (undoStack (saveHistory st)) = length (undoStack st)"
  by (cases "undoStack st")
    (auto simp: saveHistory_def Let_def updateStackStates_def push_def shift_def MAX_HISTORY_def)

subsection \<open>The concrete states\<close>

lemma twoEdits_eq:
  "twoEdits =
     \<lparr>canvasRef =
        Some \<lparr>getObjects = [textbox 80 50], getActiveObject = None,
              backgroundImage = Some placedPicture, getWidth = 600, getHeight = 400\<rparr>,
      imgOriginal = Some (1200, 800),
      backgroundRef = Some ''data:image/png;base64,iVBOR'',
      undoStack = [Str firstEdit, Str secondEdit], redoStack = [],
      isRestoring = False, hasBackground = True, canUndo = True, canRedo = False,
      localStorage = [''canvasDesign'' \<mapsto> secondEdit]\<rparr>"
  by (simp add: twoEdits_def uploaded_def handleUpload_def mount_def initial_def pngLoader_def
      Let_def newCanvas_def clear_def canvas_clear_def snapshotOf_def toJSON_def libraryEdit_def
      saveHistory_def updateStackStates_def push_def shift_def MAX_HISTORY_def firstEdit_def
      secondEdit_def placedPicture_def)

lemma undone_eq:
  "undo pngLoader twoEdits =
     (None,
      \<lparr>canvasRef =
         Some \<lparr>getObjects = [textbox 50 50], getActiveObject = None,
               backgroundImage = Some placedPicture, getWidth = 600, getHeight = 400\<rparr>,
       imgOriginal = Some (1200, 800),
       backgroundRef = Some ''data:image/png;base64,iVBOR'',
       undoStack = [Str firstEdit], redoStack = [Str secondEdit],
       isRestoring = True, hasBackground = True, canUndo = False, canRedo = True,
       localStorage = [''canvasDesign'' \<mapsto> secondEdit]\<rparr>)"
  by (simp add: twoEdits_eq undo_def loadSnapshot_alt Let_def pop_def push_def lastEntry_def
      JSON_parse_def MAX_HISTORY_def updateStackStates_def pngLoader_def clear_def firstEdit_def
      placedPicture_def)

lemma nudged_eq:
  "nudged =
     twoEdits\<lparr>canvasRef :=
        Some \<lparr>getObjects = [textbox 80 51], getActiveObject = Some 0,
              backgroundImage = Some placedPicture, getWidth = 600, getHeight = 400\<rparr>\<rparr>"
  by (simp add: nudged_def handleKey_def setActiveObject_def twoEdits_eq Let_def falsyOr_def
      textbox_def)

lemma reloaded_eq:
  "reloaded =
     \<lparr>canvasRef =
        Some \<lparr>getObjects = [textbox 80 50], getActiveObject = None,
              backgroundImage = Some placedPicture, getWidth = 600, getHeight = 400\<rparr>,
      imgOriginal = None,
      backgroundRef = Some ''data:image/png;base64,iVBOR'',
      undoStack =
        [Str \<lparr>objects = Some (CanvasJSON [textbox 80 50] None), background = None\<rparr>,
         Str \<lparr>objects = Some (ObjectArray [textbox 80 50]), background = None\<rparr>],
      redoStack = [],
      isRestoring = False, hasBackground = True, canUndo = False, canRedo = False,
      localStorage =
        [''canvasDesign'' \<mapsto>
           \<lparr>objects = Some (CanvasJSON [textbox 80 50] None), background = None\<rparr>]\<rparr>"
  by (simp add: reloaded_def twoEdits_eq mount_def initial_def secondEdit_def Let_def
      canvas_loadFromJSON_def canvas_clear_def newCanvas_def clear_def saveHistory_def
      snapshotOf_def toJSON_def updateStackStates_def push_def shift_def MAX_HISTORY_def
      pngLoader_def initialEntry_def placedPicture_def)

lemma reloadedEdited_eq:
  "reloadedEdited =
     \<lparr>canvasRef =
        Some \<lparr>getObjects = [textbox 120 50], getActiveObject = None,
              backgroundImage = Some placedPicture, getWidth = 600, getHeight = 400\<rparr>,
      imgOriginal = None,
      backgroundRef = Some ''data:image/png;base64,iVBOR'',
      undoStack =
        [Str \<lparr>objects = Some (CanvasJSON [textbox 80 50] None), background = None\<rparr>,
         Str \<lparr>objects = Some (ObjectArray [textbox 80 50]), background = None\<rparr>,
         Str \<lparr>objects = Some (CanvasJSON [textbox 120 50] (Some placedPicture)),
              background = Some ''data:image/png;base64,iVBOR''\<rparr>],
      redoStack = [],
      isRestoring = False, hasBackground = True, canUndo = True, canRedo = False,
      localStorage =
        [''canvasDesign'' \<mapsto>
           \<lparr>objects = Some (CanvasJSON [textbox 120 50] (Some placedPicture)),
            background = Some ''data:image/png;base64,iVBOR''\<rparr>]\<rparr>"
  by (simp add: reloadedEdited_def reloaded_eq libraryEdit_def saveHistory_def Let_def
      snapshotOf_def toJSON_def updateStackStates_def push_def shift_def MAX_HISTORY_def)

lemma edits_differ: "firstEdit \<noteq> secondEdit"
  by (simp add: firstEdit_def secondEdit_def textbox_def)

lemma twoEdits_fields:
  "canvasRef twoEdits \<noteq> None"
  "undoStack twoEdits = [Str firstEdit, Str secondEdit]"
  "redoStack twoEdits = []"
  "\<not> isRestoring twoEdits"
  "displayed twoEdits = Some secondEdit"
  "localStorage twoEdits ''canvasDesign'' = Some secondEdit"
  by (simp_all add: twoEdits_eq displayed_def snapshotOf_def toJSON_def secondEdit_def)

lemma undone_fields:
  "canvasRef undone \<noteq> None"
  "undoStack undone = [Str firstEdit]"
  "redoStack undone = [Str secondEdit]"
  "displayed undone = Some firstEdit"
  "fst (undo pngLoader twoEdits) = None"
  "localStorage undone = localStorage twoEdits"
  unfolding undone_def undone_eq
  by (simp_all add: twoEdits_eq displayed_def snapshotOf_def toJSON_def firstEdit_def)

lemma nudged_fields:
  "undoStack nudged = [Str firstEdit, Str secondEdit]"
  "redoStack nudged = []"
  "canvasRef nudged \<noteq> None"
  "\<not> isRestoring nudged"
  by (simp_all add: nudged_eq twoEdits_eq)

lemma redoable_fields:
  "canvasRef redoable \<noteq> None" "\<not> isRestoring redoable" "redoStack redoable = [Str secondEdit]"
  using undone_fields by (simp_all add: redoable_def restoreTimeout_def)

subsection \<open>The bound on the history\<close>

text \<open>
  The three pushes of \<open>saveHistory\<close>, \<open>undo\<close> and \<open>redo\<close> are each followed by the check
  against \<open>MAX_HISTORY\<close> (lemma \<open>run_bounded\<close>: from arrays within the bound they keep both
  arrays within it). The push of the mount effect is not.
\<close>

text \<open>
  Claim C1. Reloading the editor on a stored design of twenty objects leaves twenty-one
  entries in the undo array, one more than \<open>MAX_HISTORY\<close>: \<open>loadFromJSON\<close> makes
  \<open>saveHistory\<close> record one entry for each object, and the mount effect then pushes its own
  entry with no check of the length. Each \<open>saveHistory\<close> after that drops one entry for the
  one it pushes, so the array still holds twenty-one entries.
\<close>

theorem mount_exceeds_bound:
  "localStorage (initial [''canvasDesign'' \<mapsto> crowded]) ''canvasDesign'' = Some crowded \<and>
   length (added (the (objects crowded))) = 20 \<and>
   MAX_HISTORY = 20 \<and>
   length (undoStack reloadedCrowded) = 21 \<and>
   length (undoStack (saveHistory reloadedCrowded)) = 21 \<and>
   length (undoStack (saveHistory (libraryEdit [textbox 80 50] (saveHistory reloadedCrowded)))) = 21"
proof -
  define st2 where "st2 =
    (initial [''canvasDesign'' \<mapsto> crowded])
      \<lparr>canvasRef := Some ((clear newCanvas)\<lparr>getObjects := replicate 20 (textbox 50 50)\<rparr>)\<rparr>"
  have f: "length (undoStack (fireAdded (replicate 20 (textbox 50 50)) st2)) = 20"
    using fireAdded_length[of st2 "replicate 20 (textbox 50 50)"]
    by (simp add: st2_def initial_def MAX_HISTORY_def)
  have u: "undoStack reloadedCrowded =
      push (undoStack (fireAdded (replicate 20 (textbox 50 50)) st2))
        (initialEntry \<lparr>getObjects = replicate 20 (textbox 50 50), getActiveObject = None,
                        backgroundImage = Some placedPicture, getWidth = 600, getHeight = 400\<rparr>)"
    and c: "canvasRef reloadedCrowded \<noteq> None"
    and r: "isRestoring reloadedCrowded =
      isRestoring (fireAdded (replicate 20 (textbox 50 50)) st2)"
    by (simp_all add: reloadedCrowded_def mount_def initial_def crowded_def Let_def
        canvas_loadFromJSON_def canvas_clear_def newCanvas_def clear_def updateStackStates_def
        pngLoader_def placedPicture_def st2_def)
  have r': "\<not> isRestoring reloadedCrowded"
    using r by (simp add: fireAdded_keeps st2_def initial_def)
  have l: "length (undoStack reloadedCrowded) = 21"
    using u f by (simp add: push_def)
  have s: "length (undoStack (saveHistory reloadedCrowded)) = 21"
    using saveHistory_over_bound[OF c r'] l by (simp add: MAX_HISTORY_def)
  define st5 where "st5 = libraryEdit [textbox 80 50] (saveHistory reloadedCrowded)"
  have "canvasRef st5 \<noteq> None" "\<not> isRestoring st5" "length (undoStack st5) = 21"
    using c r' s by (auto simp: st5_def libraryEdit_def saveHistory_keeps)
  then have "length (undoStack (saveHistory st5)) = 21"
    using saveHistory_over_bound[of st5] by (simp add: MAX_HISTORY_def)
  then show ?thesis
    using l s by (simp add: st5_def initial_def crowded_def MAX_HISTORY_def)
qed

subsection \<open>Undo and redo move one entry between the arrays\<close>

text \<open>
  On an initialised canvas \<open>undo\<close> pops the undo array and pushes the popped entry onto the
  redo array, and \<open>redo\<close> moves the entry back (lemmas \<open>undo_stacks\<close> and \<open>redo_stacks\<close>). What
  the canvas shows afterwards depends on the entry that has become the top.
\<close>

text \<open>
  Claim C2. The entry the mount effect pushes is the JSON of \<open>canvas.toJSON()\<close> alone, not of
  an object with the fields \<open>objects\<close> and \<open>background\<close>. After a reload on a stored design
  (one text box on a picture) and one recorded edit, \<open>undo\<close> pops the entry of the edit and
  the mount effect's entry is the top of the undo array; \<open>undo\<close> returns normally, but the
  canvas is left with no object and no background image, the background reference is \<open>null\<close>
  and \<open>hasBackground\<close> is false, where the canvas showed the text box on the picture when that
  entry was pushed.
\<close>

theorem undo_to_initial_entry:
  "canvasRef reloaded =
     Some \<lparr>getObjects = [textbox 80 50], getActiveObject = None,
           backgroundImage = Some placedPicture, getWidth = 600, getHeight = 400\<rparr> \<and>
   hasBackground reloaded \<and>
   lastEntry (undoStack reloaded) = initialEntry (the (canvasRef reloaded)) \<and>
   undoStack reloadedEdited = undoStack reloaded @ [Str (the (displayed reloadedEdited))] \<and>
   canUndo reloadedEdited \<and>
   fst (undo pngLoader reloadedEdited) = None \<and>
   undoStack (snd (undo pngLoader reloadedEdited)) = undoStack reloaded \<and>
   canvasRef (snd (undo pngLoader reloadedEdited)) =
     Some \<lparr>getObjects = [], getActiveObject = None, backgroundImage = None,
           getWidth = 600, getHeight = 400\<rparr> \<and>
   backgroundRef (snd (undo pngLoader reloadedEdited)) = None \<and>
   \<not> hasBackground (snd (undo pngLoader reloadedEdited))"
proof -
  have u: "undo pngLoader reloadedEdited =
     (None,
      reloadedEdited
        \<lparr>canvasRef :=
           Some \<lparr>getObjects = [], getActiveObject = None, backgroundImage = None,
                 getWidth = 600, getHeight = 400\<rparr>,
         backgroundRef := None,
         undoStack :=
           [Str \<lparr>objects = Some (CanvasJSON [textbox 80 50] None), background = None\<rparr>,
            Str \<lparr>objects = Some (ObjectArray [textbox 80 50]), background = None\<rparr>],
         redoStack :=
           [Str \<lparr>objects = Some (CanvasJSON [textbox 120 50] (Some placedPicture)),
                 background = Some ''data:image/png;base64,iVBOR''\<rparr>],
         isRestoring := True, hasBackground := False, canUndo := True, canRedo := True\<rparr>)"
    by (simp add: reloadedEdited_eq undo_def loadSnapshot_alt Let_def pop_def push_def
        lastEntry_def JSON_parse_def MAX_HISTORY_def updateStackStates_def clear_def)
  show ?thesis
    unfolding u
    by (simp add: reloaded_eq reloadedEdited_eq lastEntry_def initialEntry_def displayed_def
        snapshotOf_def toJSON_def)
qed

subsection \<open>Undo followed by redo\<close>

text \<open>
  Claim C3. \<open>handleKey\<close> moves the active object and records no snapshot. After two recorded
  edits and one ArrowDown the undo array holds two entries and the redo array none, both
  below \<open>MAX_HISTORY\<close>. \<open>undo\<close> and then \<open>redo\<close> return normally and give both arrays back as
  they were, but the canvas shows the text box at top 50, where it was at top 51 before the
  undo: the displayed state is not restored.
\<close>

theorem undo_redo_loses_nudge:
  "map_option getObjects (canvasRef twoEdits) = Some [textbox 80 50] \<and>
   canvasRef nudged =
     Some \<lparr>getObjects = [textbox 80 51], getActiveObject = Some 0,
           backgroundImage = Some placedPicture, getWidth = 600, getHeight = 400\<rparr> \<and>
   undoStack nudged = undoStack twoEdits \<and> redoStack nudged = redoStack twoEdits \<and>
   canUndo nudged \<and>
   2 \<le> length (undoStack nudged) \<and>
   length (undoStack nudged) < MAX_HISTORY \<and> length (redoStack nudged) < MAX_HISTORY \<and>
   fst (undo pngLoader nudged) = None \<and>
   fst (redo pngLoader (snd (undo pngLoader nudged))) = None \<and>
   undoStack (snd (redo pngLoader (snd (undo pngLoader nudged)))) = undoStack nudged \<and>
   redoStack (snd (redo pngLoader (snd (undo pngLoader nudged)))) = redoStack nudged \<and>
   canvasRef (snd (redo pngLoader (snd (undo pngLoader nudged)))) =
     Some \<lparr>getObjects = [textbox 80 50], getActiveObject = None,
           backgroundImage = Some placedPicture, getWidth = 600, getHeight = 400\<rparr> \<and>
   displayed (snd (redo pngLoader (snd (undo pngLoader nudged)))) \<noteq> displayed nudged"
proof -
  have n: "nudged =
     \<lparr>canvasRef =
        Some \<lparr>getObjects = [textbox 80 51], getActiveObject = Some 0,
              backgroundImage = Some placedPicture, getWidth = 600, getHeight = 400\<rparr>,
      imgOriginal = Some (1200, 800),
      backgroundRef = Some ''data:image/png;base64,iVBOR'',
      undoStack = [Str firstEdit, Str secondEdit], redoStack = [],
      isRestoring = False, hasBackground = True, canUndo = True, canRedo = False,
      localStorage = [''canvasDesign'' \<mapsto> secondEdit]\<rparr>"
    by (simp add: nudged_eq twoEdits_eq)
  have u: "undo pngLoader nudged =
     (None,
      \<lparr>canvasRef =
         Some \<lparr>getObjects = [textbox 50 50], getActiveObject = None,
               backgroundImage = Some placedPicture, getWidth = 600, getHeight = 400\<rparr>,
       imgOriginal = Some (1200, 800),
       backgroundRef = Some ''data:image/png;base64,iVBOR'',
       undoStack = [Str firstEdit], redoStack = [Str secondEdit],
       isRestoring = True, hasBackground = True, canUndo = False, canRedo = True,
       localStorage = [''canvasDesign'' \<mapsto> secondEdit]\<rparr>)"
    by (simp add: n undo_def loadSnapshot_alt Let_def pop_def push_def lastEntry_def
        JSON_parse_def MAX_HISTORY_def updateStackStates_def pngLoader_def clear_def firstEdit_def
        placedPicture_def)
  have r: "redo pngLoader (snd (undo pngLoader nudged)) =
     (None,
      \<lparr>canvasRef =
         Some \<lparr>getObjects = [textbox 80 50], getActiveObject = None,
               backgroundImage = Some placedPicture, getWidth = 600, getHeight = 400\<rparr>,
       imgOriginal = Some (1200, 800),
       backgroundRef = Some ''data:image/png;base64,iVBOR'',
       undoStack = [Str firstEdit, Str secondEdit], redoStack = [],
       isRestoring = True, hasBackground = True, canUndo = True, canRedo = False,
       localStorage = [''canvasDesign'' \<mapsto> secondEdit]\<rparr>)"
    unfolding u
    by (simp add: redo_def loadSnapshot_alt Let_def pop_def push_def JSON_parse_def
        MAX_HISTORY_def updateStackStates_def pngLoader_def clear_def secondEdit_def
        placedPicture_def)
  show ?thesis
    apply (simp only: r)
    apply (simp only: u)
    apply (simp add: n twoEdits_eq MAX_HISTORY_def displayed_def snapshotOf_def toJSON_def
        textbox_def)
    done
qed

subsection \<open>What is persisted\<close>

text \<open>
  Claim C4, amended. After \<open>saveHistory\<close> has run on an initialised canvas with no restore
  in progress, the entry \<open>canvasDesign\<close> of local storage is the snapshot of the displayed
  canvas, which is also the top of the undo array. \<open>undo\<close> and \<open>redo\<close> leave local storage
  as it was.
\<close>

theorem persisted_snapshot:
  "(canvasRef st = Some cv \<and> \<not> isRestoring st \<longrightarrow>
      localStorage (saveHistory st) ''canvasDesign'' = Some (snapshotOf cv (backgroundRef st)) \<and>
      displayed (saveHistory st) = Some (snapshotOf cv (backgroundRef st)) \<and>
      lastEntry (undoStack (saveHistory st)) = Str (snapshotOf cv (backgroundRef st))) \<and>
   localStorage (snd (undo fromURL st)) = localStorage st \<and>
   localStorage (snd (redo fromURL st)) = localStorage st"
  by (simp add: saveHistory_recorded saveHistory_undoStack last_capped_push
      undo_localStorage redo_localStorage)

text \<open>
  After an undo the stored snapshot is therefore the one undone, not the one displayed.
\<close>

theorem persisted_snapshot_counterexample:
  "fst (undo pngLoader twoEdits) = None \<and>
   displayed (snd (undo pngLoader twoEdits)) = Some firstEdit \<and>
   lastEntry (undoStack (snd (undo pngLoader twoEdits))) = Str firstEdit \<and>
   localStorage (snd (undo pngLoader twoEdits)) ''canvasDesign'' = Some secondEdit \<and>
   localStorage (snd (undo pngLoader twoEdits)) ''canvasDesign'' \<noteq>
     displayed (snd (undo pngLoader twoEdits))"
  using undone_fields edits_differ
  by (simp add: undone_def twoEdits_fields lastEntry_def)

theorem persisted_snapshot_witness:
  "canvasRef nudged = Some (the (canvasRef nudged)) \<and> \<not> isRestoring nudged \<and>
   localStorage (saveHistory nudged) ''canvasDesign'' = displayed (saveHistory nudged) \<and>
   Some (lastEntry (undoStack (saveHistory nudged))) = map_option Str (displayed (saveHistory nudged)) \<and>
   localStorage (snd (undo pngLoader twoEdits)) = localStorage twoEdits \<and>
   localStorage (snd (redo pngLoader undone)) = localStorage undone"
proof -
  obtain cv where c: "canvasRef nudged = Some cv"
    using nudged_fields(3) by auto
  have r: "\<not> isRestoring nudged"
    using nudged_fields(4) .
  show ?thesis
    using persisted_snapshot[of nudged cv pngLoader] persisted_snapshot[of twoEdits cv pngLoader]
      persisted_snapshot[of undone cv pngLoader] c r
    by simp
qed

subsection \<open>The guard of the Undo control\<close>

text \<open>
  Claim C8. On an initialised canvas \<open>undo\<close> pops the undo array and parses its new last
  element. With at most one entry in the array that element is \<open>undefined\<close> and
  \<open>JSON.parse\<close> throws. With more than one entry, none of them \<open>undefined\<close>, the element
  is a snapshot, the parse succeeds and no \<open>SyntaxError\<close> leaves \<open>undo\<close>. The Undo control
  is enabled by \<open>updateStackStates\<close> exactly when the array holds more than one entry.
\<close>

theorem undo_guard:
  assumes "canvasRef st = Some cv"
  shows "(length (undoStack st) \<le> 1 \<longrightarrow>
            lastEntry (undoStack (snd (undo fromURL st))) = Undefined \<and>
            JSON_parse (lastEntry (undoStack (snd (undo fromURL st)))) = Inl SyntaxError \<and>
            fst (undo fromURL st) = Some SyntaxError) \<and>
         (length (undoStack st) > 1 \<and> Undefined \<notin> set (undoStack st) \<longrightarrow>
            (\<exists>prev. lastEntry (undoStack (snd (undo fromURL st))) = Str prev \<and>
                    JSON_parse (lastEntry (undoStack (snd (undo fromURL st)))) = Inr prev) \<and>
            fst (undo fromURL st) \<noteq> Some SyntaxError) \<and>
         canUndo (updateStackStates st) = (length (undoStack st) > 1)"
proof (intro conjI impI)
  assume "length (undoStack st) \<le> 1"
  from undo_short[OF assms this, of fromURL]
  show "lastEntry (undoStack (snd (undo fromURL st))) = Undefined"
    "JSON_parse (lastEntry (undoStack (snd (undo fromURL st)))) = Inl SyntaxError"
    "fst (undo fromURL st) = Some SyntaxError"
    by (simp_all add: lastEntry_def JSON_parse_def)
next
  assume h: "length (undoStack st) > 1 \<and> Undefined \<notin> set (undoStack st)"
  then have ne': "butlast (undoStack st) \<noteq> []"
    by (auto simp: length_greater_0_conv[symmetric] simp del: length_greater_0_conv)
  then have "last (butlast (undoStack st)) \<in> set (undoStack st)"
    by (meson in_set_butlastD last_in_set)
  then have "last (butlast (undoStack st)) \<noteq> Undefined"
    using h by metis
  then obtain prev where p: "last (butlast (undoStack st)) = Str prev"
    by (meson entry.exhaust)
  have u: "undoStack (snd (undo fromURL st)) = butlast (undoStack st)"
    using undo_stacks(1)[OF assms] .
  show "\<exists>prev. lastEntry (undoStack (snd (undo fromURL st))) = Str prev \<and>
           JSON_parse (lastEntry (undoStack (snd (undo fromURL st)))) = Inr prev"
    using u p ne' by (simp add: lastEntry_last JSON_parse_def)
  have e: "lastEntry (butlast (undoStack st)) = Str prev"
    using p ne' by (simp add: lastEntry_last)
  show "fst (undo fromURL st) \<noteq> Some SyntaxError"
    using undo_parsed[OF assms e] .
next
  show "canUndo (updateStackStates st) = (length (undoStack st) > 1)"
    by (simp add: updateStackStates_def)
qed

theorem undo_guard_witness:
  "canUndo (updateStackStates undone) = False \<and>
   fst (undo pngLoader undone) = Some SyntaxError \<and>
   lastEntry (undoStack (snd (undo pngLoader undone))) = Undefined \<and>
   canUndo (updateStackStates twoEdits) = True \<and>
   lastEntry (undoStack (snd (undo pngLoader twoEdits))) = Str firstEdit \<and>
   JSON_parse (lastEntry (undoStack (snd (undo pngLoader twoEdits)))) = Inr firstEdit \<and>
   fst (undo pngLoader twoEdits) \<noteq> Some SyntaxError"
proof -
  obtain cv where c: "canvasRef twoEdits = Some cv"
    using twoEdits_fields(1) by auto
  obtain cv' where c': "canvasRef undone = Some cv'"
    using undone_fields(1) by auto
  show ?thesis
    using undo_guard[OF c, of pngLoader] undo_guard[OF c', of pngLoader]
      undone_fields(2)[unfolded undone_def]
    by (auto simp: twoEdits_fields undone_fields lastEntry_def)
qed

subsection \<open>Recording an edit leaves the redo array alone\<close>

text \<open>
  Claim C9. \<open>saveHistory\<close> leaves the redo array as it was. Of the editor's state it
  changes the undo array, the entry \<open>canvasDesign\<close> of local storage, and nothing else
  but the two flags that \<open>updateStackStates\<close> recomputes from the arrays. If the redo array
  is not empty and Redo was enabled, Redo is enabled afterwards.
\<close>

theorem saveHistory_frame:
  "redoStack (saveHistory st) = redoStack st \<and>
   (saveHistory st)\<lparr>undoStack := undoStack st, localStorage := localStorage st,
                    canUndo := canUndo st, canRedo := canRedo st\<rparr> = st \<and>
   (\<forall>k. k \<noteq> ''canvasDesign'' \<longrightarrow> localStorage (saveHistory st) k = localStorage st k) \<and>
   (redoStack st \<noteq> [] \<and> canRedo st \<longrightarrow> canRedo (saveHistory st)) \<and>
   (canvasRef st \<noteq> None \<and> \<not> isRestoring st \<longrightarrow> canRedo (saveHistory st) = (redoStack st \<noteq> []))"
  by (auto simp: saveHistory_def Let_def updateStackStates_def split: option.splits)

theorem saveHistory_frame_witness:
  "redoStack redoable = [Str secondEdit] \<and>
   redoStack (saveHistory redoable) = [Str secondEdit] \<and>
   canRedo (saveHistory redoable) \<and>
   length (undoStack (saveHistory redoable)) = 2 \<and>
   localStorage (saveHistory redoable) ''other'' = localStorage redoable ''other''"
proof -
  obtain cv where c: "canvasRef redoable = Some cv"
    using redoable_fields(1) by auto
  have "undoStack redoable = [Str firstEdit]"
    using undone_fields(2) by (simp add: redoable_def restoreTimeout_def)
  then have "length (undoStack (saveHistory redoable)) = 2"
    using saveHistory_undoStack[OF c redoable_fields(2)]
    by (simp add: capped_def push_def MAX_HISTORY_def)
  then show ?thesis
    using saveHistory_frame[of redoable] redoable_fields by simp
qed

subsection \<open>Reset\<close>

text \<open>
  Claim C10. After \<open>reset\<close> on a state with an initialised canvas both arrays are empty,
  the background reference is \<open>null\<close>, local storage has no entry \<open>canvasDesign\<close>, and
  Undo and Redo are disabled.
\<close>

theorem reset_clears:
  assumes "canvasRef st = Some cv"
  shows "undoStack (reset st) = [] \<and> redoStack (reset st) = [] \<and>
         backgroundRef (reset st) = None \<and>
         localStorage (reset st) ''canvasDesign'' = None \<and>
         \<not> canUndo (reset st) \<and> \<not> canRedo (reset st) \<and>
         \<not> hasBackground (reset st) \<and> canvasRef (reset st) = Some (clear cv)"
  using assms by (simp add: reset_def canvas_clear_def updateStackStates_def Let_def)

theorem reset_clears_witness:
  "undoStack twoEdits \<noteq> [] \<and> localStorage twoEdits ''canvasDesign'' \<noteq> None \<and>
   undoStack (reset twoEdits) = [] \<and> redoStack (reset twoEdits) = [] \<and>
   backgroundRef (reset twoEdits) = None \<and>
   localStorage (reset twoEdits) ''canvasDesign'' = None \<and>
   \<not> canUndo (reset twoEdits) \<and> \<not> canRedo (reset twoEdits)"
proof -
  obtain cv where c: "canvasRef twoEdits = Some cv"
    using twoEdits_fields(1) by auto
  show ?thesis
    using reset_clears[OF c] by (simp add: twoEdits_fields)
qed

section \<open>Export\<close>

text \<open>
  Claim C5. In the session in which the picture of 1200 by 800 was uploaded, \<open>handleExport\<close>
  renders a canvas of 1200 by 800. After a reload on the design that session stored, the
  mount effect restores the same canvas with its background image and sets \<open>hasBackground\<close>,
  which enables the Export control, but leaves \<open>imgOriginal\<close> \<open>null\<close>: \<open>handleExport\<close> returns
  at its guard and renders nothing.
\<close>

theorem export_after_reload:
  "localStorage twoEdits ''canvasDesign'' = Some secondEdit \<and>
   imgOriginal twoEdits = Some (1200, 800) \<and>
   (\<exists>ex. handleExport pngLoader (\<lambda>obj. obj) twoEdits = Some (Inr ex) \<and>
      getWidth ex = 1200 \<and> getHeight ex = 800) \<and>
   canvasRef reloaded = canvasRef twoEdits \<and>
   backgroundRef reloaded = backgroundRef twoEdits \<and>
   hasBackground reloaded \<and>
   imgOriginal reloaded = None \<and>
   handleExport pngLoader (\<lambda>obj. obj) reloaded = None"
  by (simp add: twoEdits_eq reloaded_eq handleExport_def Let_def pngLoader_def placedPicture_def)

section \<open>Sending a transaction\<close>

lemma updateBalance_frame:
  "transactions (updateBalance js st) = transactions st"
  "sendForm (updateBalance js st) = sendForm st"
  "message (updateBalance js st) = message st"
  by (simp_all add: updateBalance_def Let_def split: option.splits sum.splits)

lemma updateBalance_connected:
  assumes "web3 st = Some w" and "account st = Some acc" and "acc \<noteq> []"
  shows "rpcLog (updateBalance js st) = rpcLog st @ [GetBalance acc]"
    and "balance (updateBalance js st) =
      (case eth_getBalance w acc of
         Inl e \<Rightarrow> balance st
       | Inr balanceWei \<Rightarrow> toFixed4 js (fromWei w balanceWei ''ether''))"
  using assms by (simp_all add: updateBalance_def Let_def split: sum.splits)

text \<open>
  Claim C6. When the wallet is not connected (\<open>web3\<close> or \<open>account\<close> is missing), or the
  recipient or the amount is empty, or \<open>isAddress\<close> rejects the recipient, \<open>sendTransaction\<close>
  shows an error message, sends no request to the provider, and changes nothing else:
  the form and the transaction list are as before.
\<close>

theorem sendTransaction_validates:
  assumes "web3 st = None \<or> account st = None \<or> account st = Some [] \<or>
           to (sendForm st) = [] \<or> amount (sendForm st) = [] \<or>
           (\<exists>w. web3 st = Some w \<and> \<not> isAddress w (to (sendForm st)))"
  shows "msg_type (message (sendTransaction js st)) = ''error'' \<and>
         msg_text (message (sendTransaction js st)) \<in>
           {''Please connect your wallet first'', ''Please fill in all fields'',
            ''Invalid recipient address''} \<and>
         rpcLog (sendTransaction js st) = rpcLog st \<and>
         sendForm (sendTransaction js st) = sendForm st \<and>
         transactions (sendTransaction js st) = transactions st \<and>
         (sendTransaction js st)\<lparr>message := message st\<rparr> = st"
  using assms
  by (auto simp: sendTransaction_def showMessage_def split: option.splits)

theorem sendTransaction_validates_witness:
  "\<not> isAddress provider ''bob'' \<and>
   message (sendTransaction runtime (panel ''bob'' ''1'')) =
     \<lparr>msg_type = ''error'', msg_text = ''Invalid recipient address''\<rparr> \<and>
   message (sendTransaction runtime (panel bob [])) =
     \<lparr>msg_type = ''error'', msg_text = ''Please fill in all fields''\<rparr> \<and>
   rpcLog (sendTransaction runtime (panel ''bob'' ''1'')) = [] \<and>
   rpcLog (sendTransaction runtime (panel bob [])) = [] \<and>
   sendForm (sendTransaction runtime (panel ''bob'' ''1'')) =
     \<lparr>to = ''bob'', amount = ''1'', gasPrice = ''20''\<rparr> \<and>
   transactions (sendTransaction runtime (panel ''bob'' ''1'')) = []"
proof -
  have a: "\<exists>w. web3 (panel ''bob'' ''1'') = Some w \<and>
      \<not> isAddress w (to (sendForm (panel ''bob'' ''1'')))"
    by (simp add: panel_def provider_def)
  have b: "amount (sendForm (panel bob [])) = []"
    by (simp add: panel_def)
  have m: "msg_text (message (sendTransaction runtime (panel ''bob'' ''1''))) =
      ''Invalid recipient address''"
    "msg_text (message (sendTransaction runtime (panel bob []))) = ''Please fill in all fields''"
    by (simp_all add: sendTransaction_def showMessage_def panel_def provider_def alice_def bob_def)
  show ?thesis
    using sendTransaction_validates[of "panel ''bob'' ''1''" runtime]
      sendTransaction_validates[of "panel bob []" runtime] a b m
    by (simp add: panel_def provider_def)
qed

text \<open>
  Claim C7. Let the form pass the checks and the conversions and the gas estimate
  succeed, so that the transaction \<open>tx\<close> is sent. If the provider returns a receipt, one
  record with the receipt's hash, the recipient, the amount, the type \<open>sent\<close> and the
  timestamp is put in front of the transaction list, the form is reset to
  an empty recipient, an empty amount and gas price 20, and the balance is refreshed: \<open>updateBalance\<close>
  asks the provider for the account's balance and displays the answer (the displayed
  balance stays if that request fails). If the provider rejects the transaction, the list
  and the form are unchanged and the message is the error \<open>Transaction failed: ...\<close>.
\<close>

theorem sendTransaction_outcome:
  assumes "web3 st = Some w" and "account st = Some acc" and "acc \<noteq> []"
    and "to (sendForm st) \<noteq> []" and "amount (sendForm st) \<noteq> []"
    and "isAddress w (to (sendForm st))"
    and "toWei w (amount (sendForm st)) ''ether'' = Inr amountWei"
    and "toWei w (gasPrice (sendForm st)) ''gwei'' = Inr gasPriceWei"
    and "eth_estimateGas w \<lparr>call_from = acc, call_to = to (sendForm st), call_value = amountWei\<rparr> =
           Inr gasEstimate"
    and "tx = \<lparr>req_from = acc, req_to = to (sendForm st), req_value = amountWei,
               req_gas = gasEstimate, req_gasPrice = gasPriceWei\<rparr>"
  shows "(eth_sendTransaction w tx = Inr receipt \<longrightarrow>
            transactions (sendTransaction js st) =
              \<lparr>tx_hash = transactionHash receipt, tx_to = to (sendForm st),
               tx_amount = amount (sendForm st), tx_type = ''sent'',
               tx_timestamp = toISOString js\<rparr> # transactions st \<and>
            sendForm (sendTransaction js st) = \<lparr>to = [], amount = [], gasPrice = ''20''\<rparr> \<and>
            rpcLog (sendTransaction js st) =
              rpcLog st @
              [EstimateGas \<lparr>call_from = acc, call_to = to (sendForm st), call_value = amountWei\<rparr>,
               SendTransaction tx, GetBalance acc] \<and>
            balance (sendTransaction js st) =
              (case eth_getBalance w acc of
                 Inl e \<Rightarrow> balance st
               | Inr balanceWei \<Rightarrow> toFixed4 js (fromWei w balanceWei ''ether'')) \<and>
            msg_type (message (sendTransaction js st)) = ''success'') \<and>
         (eth_sendTransaction w tx = Inl e \<longrightarrow>
            transactions (sendTransaction js st) = transactions st \<and>
            sendForm (sendTransaction js st) = sendForm st \<and>
            message (sendTransaction js st) =
              \<lparr>msg_type = ''error'', msg_text = ''Transaction failed: '' @ e\<rparr>)"
proof (intro conjI impI)
  assume r: "eth_sendTransaction w tx = Inr receipt"
  define st6 where "st6 =
    st\<lparr>loading := True,
       rpcLog := rpcLog st @
         [EstimateGas \<lparr>call_from = acc, call_to = to (sendForm st), call_value = amountWei\<rparr>,
          SendTransaction tx],
       transactions := \<lparr>tx_hash = transactionHash receipt, tx_to = to (sendForm st),
               tx_amount = amount (sendForm st), tx_type = ''sent'',
               tx_timestamp = toISOString js\<rparr> # transactions st,
       message := \<lparr>msg_type = ''success'',
         msg_text = ''Transaction sent successfully! Hash: '' @ transactionHash receipt\<rparr>,
       sendForm := \<lparr>to = [], amount = [], gasPrice = ''20''\<rparr>\<rparr>"
  have s: "sendTransaction js st = (updateBalance js st6)\<lparr>loading := False\<rparr>"
    using assms r by (simp add: sendTransaction_def Let_def showMessage_def st6_def)
  have w6: "web3 st6 = Some w" "account st6 = Some acc"
    using assms(1,2) by (simp_all add: st6_def)
  show "transactions (sendTransaction js st) =
      \<lparr>tx_hash = transactionHash receipt, tx_to = to (sendForm st),
       tx_amount = amount (sendForm st), tx_type = ''sent'',
       tx_timestamp = toISOString js\<rparr> # transactions st"
    by (simp add: s updateBalance_frame st6_def)
  show "sendForm (sendTransaction js st) = \<lparr>to = [], amount = [], gasPrice = ''20''\<rparr>"
    by (simp add: s updateBalance_frame st6_def)
  show "msg_type (message (sendTransaction js st)) = ''success''"
    by (simp add: s updateBalance_frame st6_def)
  show "rpcLog (sendTransaction js st) =
      rpcLog st @
      [EstimateGas \<lparr>call_from = acc, call_to = to (sendForm st), call_value = amountWei\<rparr>,
       SendTransaction tx, GetBalance acc]"
    using updateBalance_connected(1)[OF w6 assms(3), of js] by (simp add: s st6_def)
  show "balance (sendTransaction js st) =
      (case eth_getBalance w acc of
         Inl e \<Rightarrow> balance st
       | Inr balanceWei \<Rightarrow> toFixed4 js (fromWei w balanceWei ''ether''))"
  proof -
    have "balance st6 = balance st"
      by (simp add: st6_def)
    then show ?thesis
      using updateBalance_connected(2)[OF w6 assms(3), of js]
      by (cases "eth_getBalance w acc") (simp_all add: s)
  qed
next
  assume r: "eth_sendTransaction w tx = Inl e"
  have s: "sendTransaction js st =
      st\<lparr>loading := False,
         rpcLog := rpcLog st @
           [EstimateGas \<lparr>call_from = acc, call_to = to (sendForm st), call_value = amountWei\<rparr>,
            SendTransaction tx],
         message := \<lparr>msg_type = ''error'', msg_text = ''Transaction failed: '' @ e\<rparr>\<rparr>"
    using assms r by (simp add: sendTransaction_def Let_def showMessage_def sendFailed_def)
  show "transactions (sendTransaction js st) = transactions st"
    "sendForm (sendTransaction js st) = sendForm st"
    "message (sendTransaction js st) =
       \<lparr>msg_type = ''error'', msg_text = ''Transaction failed: '' @ e\<rparr>"
    by (simp_all add: s)
qed

theorem sendTransaction_outcome_witness:
  "transactions (sendTransaction runtime (panel bob ''1'')) =
     [\<lparr>tx_hash = ''0xabc'', tx_to = bob, tx_amount = ''1'', tx_type = ''sent'',
       tx_timestamp = ''2024-01-01T00:00:00.000Z''\<rparr>] \<and>
   sendForm (sendTransaction runtime (panel bob ''1'')) = \<lparr>to = [], amount = [], gasPrice = ''20''\<rparr> \<and>
   balance (sendTransaction runtime (panel bob ''1'')) = ''5.0000'' \<and>
   rpcLog (sendTransaction runtime (panel bob ''1'')) =
     [EstimateGas \<lparr>call_from = alice, call_to = bob, call_value = ''1e18''\<rparr>,
      SendTransaction \<lparr>req_from = alice, req_to = bob, req_value = ''1e18'', req_gas = 21000,
                        req_gasPrice = ''20e9''\<rparr>,
      GetBalance alice] \<and>
   transactions (sendTransaction runtime (panel bob ''2'')) = [] \<and>
   sendForm (sendTransaction runtime (panel bob ''2'')) = \<lparr>to = bob, amount = ''2'', gasPrice = ''20''\<rparr> \<and>
   message (sendTransaction runtime (panel bob ''2'')) =
     \<lparr>msg_type = ''error'', msg_text = ''Transaction failed: insufficient funds''\<rparr>"
proof -
  have ok: "eth_sendTransaction provider
      \<lparr>req_from = alice, req_to = bob, req_value = ''1e18'', req_gas = 21000,
       req_gasPrice = ''20e9''\<rparr> = Inr \<lparr>transactionHash = ''0xabc''\<rparr>"
    and ko: "eth_sendTransaction provider
      \<lparr>req_from = alice, req_to = bob, req_value = ''2e18'', req_gas = 21000,
       req_gasPrice = ''20e9''\<rparr> = Inl ''insufficient funds''"
    by (simp_all add: provider_def)
  have a: "alice \<noteq> []" "bob \<noteq> []" "isAddress provider bob"
    by (simp_all add: alice_def bob_def provider_def)
  have one: "sendForm (panel bob ''1'') = \<lparr>to = bob, amount = ''1'', gasPrice = ''20''\<rparr>"
    "web3 (panel bob ''1'') = Some provider" "account (panel bob ''1'') = Some alice"
    "transactions (panel bob ''1'') = []" "rpcLog (panel bob ''1'') = []"
    and two: "sendForm (panel bob ''2'') = \<lparr>to = bob, amount = ''2'', gasPrice = ''20''\<rparr>"
    "web3 (panel bob ''2'') = Some provider" "account (panel bob ''2'') = Some alice"
    "transactions (panel bob ''2'') = []"
    by (simp_all add: panel_def)
  have w: "toWei provider ''1'' ''ether'' = Inr ''1e18''" "toWei provider ''2'' ''ether'' = Inr ''2e18''"
    "toWei provider ''20'' ''gwei'' = Inr ''20e9''"
    "eth_estimateGas provider c = Inr 21000" "eth_getBalance provider alice = Inr ''5''"
    "fromWei provider ''5'' ''ether'' = ''5''" for c
    by (simp_all add: provider_def)
  have "toISOString runtime = ''2024-01-01T00:00:00.000Z''" "toFixed4 runtime ''5'' = ''5.0000''"
    by (simp_all add: runtime_def)
  then show ?thesis
    using sendTransaction_outcome[where st = "panel bob ''1''" and w = provider and acc = alice
        and amountWei = "''1e18''" and gasPriceWei = "''20e9''" and gasEstimate = 21000
        and receipt = "\<lparr>transactionHash = ''0xabc''\<rparr>" and js = runtime, OF _ _ _ _ _ _ _ _ _ refl]
      sendTransaction_outcome[where st = "panel bob ''2''" and w = provider and acc = alice
        and amountWei = "''2e18''" and gasPriceWei = "''20e9''" and gasEstimate = 21000
        and e = "''insufficient funds''" and js = runtime, OF _ _ _ _ _ _ _ _ _ refl]
      ok ko a one two w
    by simp
qed

end
